theory Spec2Isabelle
  imports Complex_Main "HOL-Library.Multiset" "HOL-Library.Sublist"
begin

section \<open>JavaScript values\<close>

text \<open>
  Everything \<open>review-agent.ts\<close> receives from the agent SDK is a decoded JSON document
  typed \<open>unknown\<close>, so the embedding works on untyped values. A finite double is the
  rational it denotes (\<open>-0\<close> is identified with \<open>0\<close>: the two agree on truthiness and on
  string conversion, the only operations the program applies to numbers). Strings are
  byte strings: text outside ASCII stands as its UTF-8 encoding.
\<close>

datatype jsnum = NaN | PosInfinity | NegInfinity | Finite rat

datatype jsval =
    JUndefined
  | JNull
  | JBool bool
  | JNum jsnum
  | JStr string
  | JArr "jsval list"
  | JObj "(string \<times> jsval) list"

datatype error = TypeError | SessionError string

text \<open>The \<open>typeof\<close> operator.\<close>

fun typeof :: "jsval \<Rightarrow> string" where
  "typeof JUndefined = ''undefined''"
| "typeof JNull = ''object''"
| "typeof (JBool b) = ''boolean''"
| "typeof (JNum n) = ''number''"
| "typeof (JStr s) = ''string''"
| "typeof (JArr xs) = ''object''"
| "typeof (JObj kvs) = ''object''"

fun isArray :: "jsval \<Rightarrow> bool" where
  "isArray (JArr xs) = True"
| "isArray v = False"

text \<open>Truthiness (the abstract operation ToBoolean).\<close>

fun truthy :: "jsval \<Rightarrow> bool" where
  "truthy JUndefined = False"
| "truthy JNull = False"
| "truthy (JBool b) = b"
| "truthy (JNum NaN) = False"
| "truthy (JNum (Finite q)) = (q \<noteq> 0)"
| "truthy (JNum n) = True"
| "truthy (JStr s) = (s \<noteq> [])"
| "truthy (JArr xs) = True"
| "truthy (JObj kvs) = True"

text \<open>
  Property read \<open>v.k\<close> on a value that is neither \<open>undefined\<close> nor \<open>null\<close>, for the
  property names this program reads (\<open>issues\<close>, \<open>summary\<close>, \<open>overallScore\<close>, \<open>severity\<close>,
  \<open>category\<close>, \<open>file\<close>, \<open>line\<close>, \<open>description\<close>, \<open>suggestion\<close>, \<open>file_path\<close>, \<open>pattern\<close>,
  \<open>path\<close>, \<open>subagent_type\<close>): none of them is defined on a builtin prototype, so only an
  object's own properties can answer, and everything else yields \<open>undefined\<close>.
\<close>

fun member_of :: "jsval \<Rightarrow> string \<Rightarrow> jsval" where
  "member_of (JObj kvs) k = (case map_of kvs k of None \<Rightarrow> JUndefined | Some v \<Rightarrow> v)"
| "member_of v k = JUndefined"

text \<open>Property read in general: reading a property of \<open>undefined\<close> or \<open>null\<close> throws.\<close>

definition get_prop :: "jsval \<Rightarrow> string \<Rightarrow> error + jsval" where
  "get_prop v k = (if v = JUndefined \<or> v = JNull then Inl TypeError else Inr (member_of v k))"

text \<open>The nullish coalescing operator \<open>v ?? d\<close>.\<close>

definition coalesce :: "jsval \<Rightarrow> jsval \<Rightarrow> jsval" where
  "coalesce v d = (if v = JUndefined \<or> v = JNull then d else v)"

subsection \<open>Conversion to strings\<close>

definition digit_char :: "nat \<Rightarrow> char" where
  "digit_char d = ''0123456789'' ! d"

fun digits10 :: "nat \<Rightarrow> string" where
  "digits10 n = (if n < 10 then [digit_char n] else digits10 (n div 10) @ [digit_char (n mod 10)])"

declare digits10.simps [simp del]

definition int_to_string :: "int \<Rightarrow> string" where
  "int_to_string i = (if i < 0 then ''-'' @ digits10 (nat (- i)) else digits10 (nat i))"

text \<open>
  Number::toString prints the shortest digit string that reads back as the same double.
  For an integer of magnitude below \<open>2^53\<close> that string is its exact decimal digits:
  every integer in that range is a double of its own, and no other integer reads back as
  it. For every other finite number (a fraction, or an integer from \<open>2^53\<close> on, which
  prints rounded to about 17 digits: \<open>2^60\<close> prints as \<open>1152921504606847000\<close>) the
  printer is the parameter \<open>ds\<close> of the embedding.
\<close>

definition number_to_string :: "(rat \<Rightarrow> string) \<Rightarrow> jsnum \<Rightarrow> string" where
  "number_to_string ds n =
     (case n of
        NaN \<Rightarrow> ''NaN''
      | PosInfinity \<Rightarrow> ''Infinity''
      | NegInfinity \<Rightarrow> ''-Infinity''
      | Finite q \<Rightarrow>
          if q = of_int \<lfloor>q\<rfloor> \<and> \<bar>q\<bar> < 2 ^ 53 then int_to_string \<lfloor>q\<rfloor> else ds q)"

text \<open>
  Number.prototype.toFixed: the integer \<open>n\<close> nearest to \<open>x * 10^f\<close> (the larger one on a
  tie), printed by its exact decimal digits with \<open>f\<close> of them after the point; from
  \<open>10^21\<close> on it prints as Number::toString does.
\<close>

definition toFixed :: "(rat \<Rightarrow> string) \<Rightarrow> nat \<Rightarrow> jsnum \<Rightarrow> string" where
  "toFixed ds f x =
     (case x of
        Finite q \<Rightarrow>
          (let s = (if q < 0 then ''-'' else ''''); a = \<bar>q\<bar> in
           if a \<ge> 10 ^ 21 then s @ number_to_string ds (Finite a)
           else
             let m = digits10 (nat \<lfloor>a * 10 ^ f + 1 / 2\<rfloor>);
                 p = replicate (f + 1 - length m) (CHR ''0'') @ m
             in if f = 0 then s @ m
                else s @ take (length p - f) p @ ''.'' @ drop (length p - f) p)
      | _ \<Rightarrow> number_to_string ds x)"

text \<open>
  ToString, as \<open>String(v)\<close> and a template literal apply it. An array prints its elements
  joined by commas, \<open>undefined\<close> and \<open>null\<close> elements as the empty string. A plain object
  prints through \<open>Object.prototype.toString\<close> unless it has an own property \<open>toString\<close>: a
  decoded JSON document holds no function, so that own property is not callable, the
  inherited \<open>valueOf\<close> returns the object itself, and the conversion throws a TypeError.
\<close>

fun to_string :: "(rat \<Rightarrow> string) \<Rightarrow> jsval \<Rightarrow> error + string"
  and join_elements :: "(rat \<Rightarrow> string) \<Rightarrow> jsval list \<Rightarrow> error + string" where
  "to_string ds JUndefined = Inr ''undefined''"
| "to_string ds JNull = Inr ''null''"
| "to_string ds (JBool b) = Inr (if b then ''true'' else ''false'')"
| "to_string ds (JNum n) = Inr (number_to_string ds n)"
| "to_string ds (JStr s) = Inr s"
| "to_string ds (JArr xs) = join_elements ds xs"
| "to_string ds (JObj kvs) =
     (if map_of kvs ''toString'' = None then Inr ''[object Object]'' else Inl TypeError)"
| "join_elements ds [] = Inr ''''"
| "join_elements ds (x # xs) =
     (case (if x = JUndefined \<or> x = JNull then Inr '''' else to_string ds x) of
        Inl e \<Rightarrow> Inl e
      | Inr s \<Rightarrow>
          (if xs = [] then Inr s
           else case join_elements ds xs of Inl e \<Rightarrow> Inl e | Inr t \<Rightarrow> Inr (s @ '','' @ t)))"

section \<open>The contract of a review result\<close>

text \<open>
  \<open>isValidReviewResult\<close> (lines 63-70), check by check. After the first check \<open>obj\<close> is
  neither \<open>undefined\<close> nor \<open>null\<close>, so the property reads cannot throw.
\<close>

definition isValidReviewResult :: "jsval \<Rightarrow> bool" where
  "isValidReviewResult obj =
     (if typeof obj \<noteq> ''object'' \<or> obj = JNull then False
      else
        let result = obj in
        if \<not> isArray (member_of result ''issues'') then False
        else if typeof (member_of result ''summary'') \<noteq> ''string'' then False
        else if typeof (member_of result ''overallScore'') \<noteq> ''number'' then False
        else True)"

text \<open>
  The shape the specification demands, in its own words: a non-null object with an
  array-valued \<open>issues\<close>, a string \<open>summary\<close> and a numeric \<open>overallScore\<close>.
\<close>

definition spec_valid_shape :: "jsval \<Rightarrow> bool" where
  "spec_valid_shape p =
     (\<exists>kvs xs s n. p = JObj kvs \<and> map_of kvs ''issues'' = Some (JArr xs)
        \<and> map_of kvs ''summary'' = Some (JStr s) \<and> map_of kvs ''overallScore'' = Some (JNum n))"

text \<open>
  The interface \<open>ReviewResult\<close> (lines 5-16) as the type guard establishes it: the three
  fields have their declared types, the elements of \<open>issues\<close> are whatever arrived.
\<close>

record ReviewResult =
  issues :: "jsval list"
  summary :: string
  overallScore :: jsnum

definition narrow :: "jsval \<Rightarrow> ReviewResult option" where
  "narrow obj =
     (case (member_of obj ''issues'', member_of obj ''summary'', member_of obj ''overallScore'') of
        (JArr xs, JStr s, JNum n) \<Rightarrow> Some \<lparr>issues = xs, summary = s, overallScore = n\<rparr>
      | _ \<Rightarrow> None)"

section \<open>Console output and exceptions\<close>

text \<open>
  A computation of the program logs lines to the console and then either returns a value
  or throws: its meaning is the list of the lines it logged, in order, and the outcome.
  A line is one call of \<open>console.log\<close> (its text may hold newlines of its own).
\<close>

type_synonym 'a io = "string list \<times> (error + 'a)"

definition ret :: "'a \<Rightarrow> 'a io" where
  "ret a = ([], Inr a)"

definition lift :: "error + 'a \<Rightarrow> 'a io" where
  "lift r = ([], r)"

definition console_log :: "string \<Rightarrow> unit io" where
  "console_log s = ([s], Inr ())"

definition io_bind :: "'a io \<Rightarrow> ('a \<Rightarrow> 'b io) \<Rightarrow> 'b io" where
  "io_bind m f =
     (case snd m of
        Inl e \<Rightarrow> (fst m, Inl e)
      | Inr a \<Rightarrow> (fst m @ fst (f a), snd (f a)))"

text \<open>A \<open>for ... of\<close> loop over an array whose body may log and throw.\<close>

fun for_each :: "('a \<Rightarrow> unit io) \<Rightarrow> 'a list \<Rightarrow> unit io" where
  "for_each body [] = ret ()"
| "for_each body (x # xs) = io_bind (body x) (\<lambda>u. for_each body xs)"

definition newline :: string where
  "newline = [CHR 0x0A]"

text \<open>The glyphs of the progress and report lines, as their UTF-8 bytes.\<close>

definition glyph_magnifier :: string where
  "glyph_magnifier = [CHR 0xF0, CHR 0x9F, CHR 0x94, CHR 0x8D]"

definition glyph_folder :: string where
  "glyph_folder = [CHR 0xF0, CHR 0x9F, CHR 0x93, CHR 0x81]"

definition glyph_robot :: string where
  "glyph_robot = [CHR 0xF0, CHR 0x9F, CHR 0xA4, CHR 0x96]"

definition glyph_open_folder :: string where
  "glyph_open_folder = [CHR 0xF0, CHR 0x9F, CHR 0x93, CHR 0x82]"

definition glyph_check :: string where
  "glyph_check = [CHR 0xE2, CHR 0x9C, CHR 0x85]"

definition glyph_cross :: string where
  "glyph_cross = [CHR 0xE2, CHR 0x9D, CHR 0x8C]"

definition glyph_chart :: string where
  "glyph_chart = [CHR 0xF0, CHR 0x9F, CHR 0x93, CHR 0x8A]"

definition glyph_red :: string where
  "glyph_red = [CHR 0xF0, CHR 0x9F, CHR 0x94, CHR 0xB4]"

definition glyph_orange :: string where
  "glyph_orange = [CHR 0xF0, CHR 0x9F, CHR 0x9F, CHR 0xA0]"

definition glyph_yellow :: string where
  "glyph_yellow = [CHR 0xF0, CHR 0x9F, CHR 0x9F, CHR 0xA1]"

definition glyph_green :: string where
  "glyph_green = [CHR 0xF0, CHR 0x9F, CHR 0x9F, CHR 0xA2]"

definition glyph_bulb :: string where
  "glyph_bulb = [CHR 0xF0, CHR 0x9F, CHR 0x92, CHR 0xA1]"

section \<open>Progress lines\<close>

text \<open>
  The interface \<open>ToolUseBlock\<close> (lines 42-46): a tool name and the tool's input, an
  object whose property values are \<open>unknown\<close>. (Its constant \<open>type\<close> tag is never read.)
\<close>

record ToolUseBlock =
  name :: string
  input :: "(string \<times> jsval) list"

text \<open>\<open>getToolSummary\<close> (lines 146-154).\<close>

definition getToolSummary :: "(rat \<Rightarrow> string) \<Rightarrow> ToolUseBlock \<Rightarrow> error + string" where
  "getToolSummary ds block =
     (let inp = JObj (input block) in
      if name block = ''Read'' then
        to_string ds (coalesce (member_of inp ''file_path'') (JStr ''file''))
      else if name block = ''Glob'' then
        to_string ds (coalesce (member_of inp ''pattern'') (JStr ''pattern''))
      else if name block = ''Grep'' then
        (case to_string ds (coalesce (member_of inp ''pattern'') (JStr [])) of
           Inl e \<Rightarrow> Inl e
         | Inr p \<Rightarrow>
             (case to_string ds (coalesce (member_of inp ''path'') (JStr ''.'')) of
                Inl e \<Rightarrow> Inl e
              | Inr r \<Rightarrow> Inr ([CHR 0x22] @ p @ [CHR 0x22] @ '' in '' @ r)))
      else Inr [])"

text \<open>
  A content block of an assistant message: one that has both a \<open>name\<close> and an \<open>input\<close>
  property (line 116), read through \<open>ToolUseBlock\<close>, or any other block.
\<close>

datatype content_block = ToolUse ToolUseBlock | OtherBlock

text \<open>
  The messages of the stream that \<open>query\<close> returns: an assistant message with its content
  blocks, a result message with its \<open>subtype\<close>, \<open>structured_output\<close> (\<open>undefined\<close> when
  absent) and \<open>total_cost_usd\<close>, or a message of any other type.
\<close>

datatype message =
    AssistantMessage "content_block list"
  | ResultMessage string jsval "jsnum option"
  | OtherMessage

text \<open>
  The stream itself: the messages it yields and, when opening the session or reading the
  next message fails, the error it throws after them.
\<close>

record event_stream =
  events :: "message list"
  failure :: "string option"

text \<open>The body of the loop over the content blocks (lines 116-124).\<close>

definition delegation_line :: "string \<Rightarrow> string" where
  "delegation_line s = glyph_robot @ '' Delegating to: '' @ s"

definition summary_line :: "string \<Rightarrow> string \<Rightarrow> string" where
  "summary_line tool s = glyph_open_folder @ '' '' @ tool @ '': '' @ s"

definition progress :: "(rat \<Rightarrow> string) \<Rightarrow> content_block \<Rightarrow> unit io" where
  "progress ds block =
     (case block of
        OtherBlock \<Rightarrow> ret ()
      | ToolUse toolBlock \<Rightarrow>
          if name toolBlock = ''Task'' then
            io_bind
              (lift (to_string ds
                 (coalesce (member_of (JObj (input toolBlock)) ''subagent_type'') (JStr ''unknown''))))
              (\<lambda>s. console_log (delegation_line s))
          else
            io_bind (lift (getToolSummary ds toolBlock))
              (\<lambda>s. console_log (summary_line (name toolBlock) s)))"

text \<open>
  The handling of a result message (lines 129-140). The value returned is the assignment
  to the variable \<open>result\<close> that the branch executes, if it executes one.
\<close>

definition complete_line :: "(rat \<Rightarrow> string) \<Rightarrow> jsnum option \<Rightarrow> string" where
  "complete_line ds cost =
     newline @ glyph_check @ '' Review complete! Cost: $''
       @ toFixed ds 4 (case cost of None \<Rightarrow> Finite 0 | Some c \<Rightarrow> c)"

definition invalid_line :: string where
  "invalid_line = newline @ glyph_cross @ '' Review failed: Invalid response structure''"

definition failed_line :: "string \<Rightarrow> string" where
  "failed_line subtype = newline @ glyph_cross @ '' Review failed: '' @ subtype"

definition on_result ::
  "(rat \<Rightarrow> string) \<Rightarrow> string \<Rightarrow> jsval \<Rightarrow> jsnum option \<Rightarrow> (ReviewResult option) io" where
  "on_result ds subtype structured_output cost =
     (if subtype = ''success'' \<and> truthy structured_output then
        if isValidReviewResult structured_output then
          io_bind (console_log (complete_line ds cost)) (\<lambda>u. ret (narrow structured_output))
        else io_bind (console_log invalid_line) (\<lambda>u. ret None)
      else io_bind (console_log (failed_line subtype)) (\<lambda>u. ret None))"

text \<open>One iteration of the loop over the messages (lines 113-140).\<close>

definition on_message :: "(rat \<Rightarrow> string) \<Rightarrow> message \<Rightarrow> (ReviewResult option) io" where
  "on_message ds msg =
     (case msg of
        AssistantMessage content \<Rightarrow> io_bind (for_each (progress ds) content) (\<lambda>u. ret None)
      | ResultMessage subtype structured_output cost \<Rightarrow> on_result ds subtype structured_output cost
      | OtherMessage \<Rightarrow> ret None)"

text \<open>
  The loop: \<open>result\<close> is the variable declared at line 78; an iteration that assigns
  replaces its value, any other leaves it.
\<close>

fun consume ::
  "(rat \<Rightarrow> string) \<Rightarrow> message list \<Rightarrow> ReviewResult option \<Rightarrow> (ReviewResult option) io" where
  "consume ds [] result = ret result"
| "consume ds (msg # msgs) result =
     io_bind (on_message ds msg)
       (\<lambda>assigned. consume ds msgs (case assigned of None \<Rightarrow> result | Some r \<Rightarrow> Some r))"

text \<open>\<open>runCodeReview\<close> (lines 72-144).\<close>

definition rule50 :: string where
  "rule50 = replicate 50 (CHR ''='')"

definition runCodeReview ::
  "(rat \<Rightarrow> string) \<Rightarrow> string \<Rightarrow> event_stream \<Rightarrow> (ReviewResult option) io" where
  "runCodeReview ds directory stream =
     io_bind (console_log (newline @ rule50)) (\<lambda>u.
     io_bind (console_log (glyph_magnifier @ '' Code Review Agent'')) (\<lambda>u.
     io_bind (console_log (glyph_folder @ '' Directory: '' @ directory)) (\<lambda>u.
     io_bind (console_log (rule50 @ newline)) (\<lambda>u.
     io_bind (consume ds (events stream) None) (\<lambda>result.
       case failure stream of
         Some e \<Rightarrow> lift (Inl (SessionError e))
       | None \<Rightarrow> ret result)))))"

section \<open>The report\<close>

definition try_bind :: "error + 'a \<Rightarrow> ('a \<Rightarrow> error + 'b) \<Rightarrow> error + 'b" where
  "try_bind r f = (case r of Inl e \<Rightarrow> Inl e | Inr a \<Rightarrow> f a)"

text \<open>
  \<open>result.issues.filter(i => i.severity === sev)\<close> (lines 166-169): the callback reads a
  property of each element, in order, and the array method keeps the elements for which
  it answers true.
\<close>

fun filter_severity :: "string \<Rightarrow> jsval list \<Rightarrow> error + jsval list" where
  "filter_severity sev [] = Inr []"
| "filter_severity sev (i # rest) =
     try_bind (get_prop i ''severity'') (\<lambda>s.
     try_bind (filter_severity sev rest) (\<lambda>kept.
       Inr (if s = JStr sev then i # kept else kept)))"

text \<open>The object \<open>byCategory\<close> (lines 165-170), as its entries in insertion order.\<close>

definition byCategory :: "jsval list \<Rightarrow> error + (string \<times> jsval list) list" where
  "byCategory all_issues =
     try_bind (filter_severity ''critical'' all_issues) (\<lambda>critical.
     try_bind (filter_severity ''high'' all_issues) (\<lambda>high.
     try_bind (filter_severity ''medium'' all_issues) (\<lambda>medium.
     try_bind (filter_severity ''low'' all_issues) (\<lambda>low.
       Inr [(''critical'', critical), (''high'', high), (''medium'', medium), (''low'', low)]))))"

text \<open>\<open>toUpperCase\<close>, on the ASCII letters (it is applied to the four keys above only).\<close>

definition toUpperCase :: "string \<Rightarrow> string" where
  "toUpperCase s =
     map (\<lambda>c. if 97 \<le> (of_char c :: nat) \<and> (of_char c :: nat) \<le> 122
               then char_of ((of_char c :: nat) - 32) else c) s"

definition icon :: "string \<Rightarrow> string" where
  "icon severity =
     (if severity = ''critical'' then glyph_red
      else if severity = ''high'' then glyph_orange
      else if severity = ''medium'' then glyph_yellow
      else glyph_green)"

definition bucket_header :: "string \<Rightarrow> nat \<Rightarrow> string" where
  "bucket_header severity n =
     newline @ icon severity @ '' '' @ toUpperCase severity @ '' ('' @ digits10 n @ '')''"

definition rule30 :: string where
  "rule30 = replicate 30 (CHR ''-'')"

text \<open>The constant \<open>location\<close> of line 183.\<close>

definition location_of :: "(rat \<Rightarrow> string) \<Rightarrow> jsval \<Rightarrow> error + jsval" where
  "location_of ds issue =
     try_bind (get_prop issue ''line'') (\<lambda>line.
       if truthy line then
         try_bind (get_prop issue ''file'') (\<lambda>file.
         try_bind (to_string ds file) (\<lambda>f.
         try_bind (get_prop issue ''line'') (\<lambda>line'.
         try_bind (to_string ds line') (\<lambda>l.
           Inr (JStr (f @ '':'' @ l))))))
       else get_prop issue ''file'')"

text \<open>The body of the loop over the issues of a bucket (lines 183-188).\<close>

definition print_issue :: "(rat \<Rightarrow> string) \<Rightarrow> jsval \<Rightarrow> unit io" where
  "print_issue ds issue =
     io_bind (lift (location_of ds issue)) (\<lambda>location.
     io_bind (lift (try_bind (get_prop issue ''category'') (to_string ds))) (\<lambda>category.
     io_bind (lift (to_string ds location)) (\<lambda>loc.
     io_bind (console_log (newline @ ''['' @ category @ ''] '' @ loc)) (\<lambda>u.
     io_bind (lift (try_bind (get_prop issue ''description'') (to_string ds))) (\<lambda>description.
     io_bind (console_log (''  '' @ description)) (\<lambda>u.
     io_bind (lift (get_prop issue ''suggestion'')) (\<lambda>suggestion.
       if truthy suggestion then
         io_bind (lift (to_string ds suggestion)) (\<lambda>s.
           console_log (''  '' @ glyph_bulb @ '' '' @ s))
       else ret ())))))))"

text \<open>The body of the loop over the entries of \<open>byCategory\<close> (lines 173-189).\<close>

definition print_bucket :: "(rat \<Rightarrow> string) \<Rightarrow> string \<times> jsval list \<Rightarrow> unit io" where
  "print_bucket ds entry =
     (case entry of (severity, bucket) \<Rightarrow>
        if length bucket = 0 then ret ()
        else
          io_bind (console_log (bucket_header severity (length bucket))) (\<lambda>u.
          io_bind (console_log rule30) (\<lambda>u.
            for_each (print_issue ds) bucket)))"

text \<open>\<open>printResults\<close> (lines 156-191).\<close>

definition printResults :: "(rat \<Rightarrow> string) \<Rightarrow> ReviewResult \<Rightarrow> unit io" where
  "printResults ds result =
     io_bind (console_log (newline @ rule50)) (\<lambda>u.
     io_bind (console_log (glyph_chart @ '' REVIEW RESULTS'')) (\<lambda>u.
     io_bind (console_log (rule50 @ newline)) (\<lambda>u.
     io_bind (console_log (''Score: '' @ number_to_string ds (overallScore result) @ ''/100'')) (\<lambda>u.
     io_bind (console_log (''Issues Found: '' @ digits10 (length (issues result)) @ newline)) (\<lambda>u.
     io_bind (console_log (''Summary: '' @ summary result @ newline)) (\<lambda>u.
     io_bind (lift (byCategory (issues result))) (\<lambda>buckets.
       for_each (print_bucket ds) buckets)))))))"

text \<open>
  \<open>main\<close> (lines 205-209), after the directory has been validated: the report is printed
  when the review returned a result.
\<close>

definition main :: "(rat \<Rightarrow> string) \<Rightarrow> string \<Rightarrow> event_stream \<Rightarrow> unit io" where
  "main ds validatedDirectory stream =
     io_bind (runCodeReview ds validatedDirectory stream) (\<lambda>result.
       case result of None \<Rightarrow> ret () | Some r \<Rightarrow> printResults ds r)"

section \<open>Notions the properties are stated with\<close>

text \<open>
  A value that ToString converts without throwing: no object with an own property
  \<open>toString\<close> is reached (directly, or through the elements of arrays).
\<close>

fun convertible :: "jsval \<Rightarrow> bool" where
  "convertible (JObj kvs) = (map_of kvs ''toString'' = None)"
| "convertible (JArr xs) = list_all convertible xs"
| "convertible v = True"

definition nullish :: "jsval \<Rightarrow> bool" where
  "nullish v = (v = JUndefined \<or> v = JNull)"

text \<open>The test of the filter callbacks, as a predicate on an element that can be read.\<close>

definition severity_is :: "string \<Rightarrow> jsval \<Rightarrow> bool" where
  "severity_is sev i = (member_of i ''severity'' = JStr sev)"

definition priority :: "string list" where
  "priority = [''critical'', ''high'', ''medium'', ''low'']"

definition on_scale :: "jsval \<Rightarrow> bool" where
  "on_scale i = list_ex (\<lambda>sev. severity_is sev i) priority"

text \<open>
  The partition the specification describes: one bucket per severity, in priority order,
  each the stable filter of the issues by exact match on \<open>severity\<close>.
\<close>

definition stable_buckets :: "jsval list \<Rightarrow> (string \<times> jsval list) list" where
  "stable_buckets xs = map (\<lambda>sev. (sev, filter (severity_is sev) xs)) priority"

text \<open>
  A severity header among the lines of the report: it is the only kind of line that
  starts with a newline followed by the first byte of a glyph. (An issue's first line
  starts with a newline and a bracket, its other lines with two spaces.)
\<close>

definition is_bucket_header :: "string \<Rightarrow> bool" where
  "is_bucket_header l = (take 2 l = [CHR 0x0A, CHR 0xF0])"


text \<open>A terminal event is a result message.\<close>

fun is_result :: "message \<Rightarrow> bool" where
  "is_result (ResultMessage subtype payload cost) = True"
| "is_result m = False"

text \<open>
  A terminal event that reports success and carries a payload that is present (truthy)
  and passes the validator.
\<close>

fun records :: "message \<Rightarrow> bool" where
  "records (ResultMessage subtype payload cost) =
     (subtype = ''success'' \<and> truthy payload \<and> isValidReviewResult payload)"
| "records m = False"

text \<open>
  The values assigned to the variable \<open>result\<close> while the loop runs over the messages, in
  order: the loop stops at the first iteration that throws.
\<close>

fun assignments :: "(rat \<Rightarrow> string) \<Rightarrow> message list \<Rightarrow> ReviewResult list" where
  "assignments ds [] = []"
| "assignments ds (msg # msgs) =
     (case snd (on_message ds msg) of
        Inl e \<Rightarrow> []
      | Inr None \<Rightarrow> assignments ds msgs
      | Inr (Some r) \<Rightarrow> r # assignments ds msgs)"

text \<open>An assistant message one of whose progress lines throws while it is computed.\<close>

definition progress_throws :: "(rat \<Rightarrow> string) \<Rightarrow> message \<Rightarrow> bool" where
  "progress_throws ds m =
     (case m of
        AssistantMessage content \<Rightarrow> list_ex (\<lambda>b. snd (progress ds b) = Inl TypeError) content
      | _ \<Rightarrow> False)"

section \<open>Basic facts\<close>

lemma io_bind_ret [simp]: "io_bind (ret a) f = f a"
  by (simp add: io_bind_def ret_def)

lemma io_bind_ret_right [simp]: "io_bind m ret = m"
  by (cases m) (auto simp: io_bind_def ret_def split: sum.splits)

lemma io_bind_lift_Inr [simp]: "io_bind (lift (Inr a)) f = f a"
  by (simp add: io_bind_def lift_def)

lemma io_bind_lift_Inl [simp]: "io_bind (lift (Inl e)) f = ([], Inl e)"
  by (simp add: io_bind_def lift_def)

lemma fst_io_bind_console_log [simp]: "fst (io_bind (console_log s) f) = s # fst (f ())"
  by (simp add: io_bind_def console_log_def)

lemma snd_io_bind_console_log [simp]: "snd (io_bind (console_log s) f) = snd (f ())"
  by (simp add: io_bind_def console_log_def)

lemma fst_ret [simp]: "fst (ret a) = []"
  by (simp add: ret_def)

lemma snd_ret [simp]: "snd (ret a) = Inr a"
  by (simp add: ret_def)

lemma fst_lift [simp]: "fst (lift r) = []"
  by (simp add: lift_def)

lemma snd_lift [simp]: "snd (lift r) = r"
  by (simp add: lift_def)

lemma fst_console_log [simp]: "fst (console_log s) = [s]"
  by (simp add: console_log_def)

lemma snd_console_log [simp]: "snd (console_log s) = Inr ()"
  by (simp add: console_log_def)

lemma fst_io_bind:
  "fst (io_bind m f) = (case snd m of Inl e \<Rightarrow> fst m | Inr a \<Rightarrow> fst m @ fst (f a))"
  by (simp add: io_bind_def split: sum.splits)

lemma snd_io_bind:
  "snd (io_bind m f) = (case snd m of Inl e \<Rightarrow> Inl e | Inr a \<Rightarrow> snd (f a))"
  by (simp add: io_bind_def split: sum.splits)

lemma try_bind_Inr [simp]: "try_bind (Inr a) f = f a"
  by (simp add: try_bind_def)

lemma try_bind_Inl [simp]: "try_bind (Inl e) f = Inl e"
  by (simp add: try_bind_def)

lemma typeof_string_iff: "typeof v = ''string'' \<longleftrightarrow> (\<exists>s. v = JStr s)"
  by (cases v) auto

lemma typeof_number_iff: "typeof v = ''number'' \<longleftrightarrow> (\<exists>n. v = JNum n)"
  by (cases v) auto

lemma isArray_iff: "isArray v \<longleftrightarrow> (\<exists>xs. v = JArr xs)"
  by (cases v) auto

lemma member_of_eq_iff:
  "v \<noteq> JUndefined \<Longrightarrow> member_of p k = v \<longleftrightarrow> (\<exists>kvs. p = JObj kvs \<and> map_of kvs k = Some v)"
  by (cases p) (auto split: option.splits)

lemma number_to_string_int:
  "\<bar>z\<bar> < 2 ^ 53 \<Longrightarrow> number_to_string ds (Finite (of_int z)) = int_to_string z"
proof -
  assume "\<bar>z\<bar> < 2 ^ 53"
  then have "\<bar>(of_int z :: rat)\<bar> < 2 ^ 53"
    by (metis of_int_abs of_int_less_iff of_int_numeral of_int_power)
  then show ?thesis by (simp add: number_to_string_def)
qed


lemma to_string_total_iff:
  "(\<exists>s. to_string ds v = Inr s) \<longleftrightarrow> convertible v"
  "(\<exists>s. join_elements ds xs = Inr s) \<longleftrightarrow> list_all convertible xs"
proof (induction ds v and ds xs rule: to_string_join_elements.induct)
  case (9 ds x xs)
  then show ?case by (cases x) (auto split: sum.splits)
qed auto

lemma to_string_error: "to_string ds v = Inl e \<Longrightarrow> e = TypeError"
  and join_elements_error: "join_elements ds xs = Inl e \<Longrightarrow> e = TypeError"
  by (induction ds v and ds xs rule: to_string_join_elements.induct)
     (auto split: sum.splits if_splits)

lemma to_string_Inl_iff: "(\<exists>e. to_string ds v = Inl e) \<longleftrightarrow> \<not> convertible v"
  using to_string_total_iff(1)[of ds v] by (cases "to_string ds v") auto

section \<open>The result validator\<close>

lemma isValidReviewResult_shape: "isValidReviewResult p \<longleftrightarrow> spec_valid_shape p"
  unfolding isValidReviewResult_def spec_valid_shape_def
  by (cases p)
     (auto simp: Let_def typeof_string_iff typeof_number_iff isArray_iff member_of_eq_iff
       split: option.splits)

lemma narrow_iff: "isValidReviewResult p \<longleftrightarrow> (\<exists>r. narrow p = Some r)"
  unfolding isValidReviewResult_shape spec_valid_shape_def narrow_def
  by (cases p) (auto split: option.splits jsval.splits)

text \<open>
  Every value of the record is the narrowing of a payload that passes the validator, so
  a statement about every \<open>ReviewResult\<close> is one about every validated result.
\<close>

lemma narrow_onto: "\<exists>p. isValidReviewResult p \<and> narrow p = Some (r :: ReviewResult)"
proof (intro exI conjI)
  let ?p = "JObj [(''issues'', JArr (issues r)), (''summary'', JStr (summary r)),
                  (''overallScore'', JNum (overallScore r))]"
  show "isValidReviewResult ?p" by (simp add: isValidReviewResult_def)
  show "narrow ?p = Some r" by (simp add: narrow_def)
qed

text \<open>
  C1. For every payload, the validator answers true exactly when the payload is a
  non-null object whose \<open>issues\<close> is an array, whose \<open>summary\<close> is a string and whose
  \<open>overallScore\<close> is a number. The elements of \<open>issues\<close> are not inspected: any array
  is accepted in that field, and replacing the array of a valid payload by any other array
  leaves it valid. \<open>null\<close>, \<open>undefined\<close>, arrays, strings, numbers and booleans are
  rejected.
\<close>

theorem isValidReviewResult_iff_shape:
  "(isValidReviewResult p \<longleftrightarrow> spec_valid_shape p)
   \<and> isValidReviewResult (JObj [(''issues'', JArr xs), (''summary'', JStr s), (''overallScore'', JNum n)])
   \<and> (isValidReviewResult (JObj kvs) \<longrightarrow>
        isValidReviewResult (JObj ((''issues'', JArr ys) # kvs)))
   \<and> \<not> isValidReviewResult JNull \<and> \<not> isValidReviewResult JUndefined
   \<and> \<not> isValidReviewResult (JArr xs) \<and> \<not> isValidReviewResult (JStr s)
   \<and> \<not> isValidReviewResult (JNum n) \<and> \<not> isValidReviewResult (JBool b)"
  by (auto simp: isValidReviewResult_shape spec_valid_shape_def)

theorem isValidReviewResult_iff_shape_witness:
  "isValidReviewResult (JObj [(''issues'', JArr []), (''summary'', JStr ''s''), (''overallScore'', JNum (Finite 0))])
   \<and> isValidReviewResult
        (JObj [(''issues'', JArr [JNull, JStr ''x'']), (''issues'', JArr []), (''summary'', JStr ''s''),
               (''overallScore'', JNum (Finite 0))])
   \<and> \<not> spec_valid_shape
        (JObj [(''issues'', JStr ''x''), (''summary'', JStr ''s''), (''overallScore'', JNum (Finite 1))])"
proof -
  let ?ok = "[(''issues'', JArr []), (''summary'', JStr ''s''), (''overallScore'', JNum (Finite 0))]"
  let ?bad = "JObj [(''issues'', JStr ''x''), (''summary'', JStr ''s''), (''overallScore'', JNum (Finite 1))]"
  have ok: "isValidReviewResult (JObj ?ok)"
    by (simp add: isValidReviewResult_def)
  have bad: "\<not> isValidReviewResult ?bad"
    by (simp add: isValidReviewResult_def)
  from isValidReviewResult_iff_shape[of ?bad] bad have "\<not> spec_valid_shape ?bad" by blast
  moreover from isValidReviewResult_iff_shape[of "JObj ?ok" "[]" "[]" NaN ?ok "[JNull, JStr ''x'']"] ok
  have "isValidReviewResult (JObj ((''issues'', JArr [JNull, JStr ''x'']) # ?ok))" by blast
  ultimately show ?thesis using ok by simp
qed

section \<open>The report renderer\<close>

lemma filter_severity_eq:
  "filter_severity sev xs =
     (if list_ex nullish xs then Inl TypeError else Inr (filter (severity_is sev) xs))"
  by (induction xs) (auto simp: get_prop_def nullish_def severity_is_def[symmetric])

lemma byCategory_eq:
  "byCategory xs = (if list_ex nullish xs then Inl TypeError else Inr (stable_buckets xs))"
  by (simp add: byCategory_def filter_severity_eq stable_buckets_def priority_def)

lemma mset_stable_buckets:
  "mset (concat (map snd (stable_buckets xs))) = mset (filter on_scale xs)"
  by (induction xs) (auto simp: stable_buckets_def priority_def on_scale_def severity_is_def)

text \<open>
  C2, as amended. The validator does not look at the elements of \<open>issues\<close>, so a validated
  result may hold an element that is \<open>null\<close> or \<open>undefined\<close> (the first filter callback
  then throws a TypeError and no bucket is built) or an issue whose \<open>severity\<close> is none of
  the four values (it lands in no bucket). For every list of issues without a \<open>null\<close> or
  \<open>undefined\<close> element: the renderer builds the four buckets critical, high, medium, low,
  in that order; each bucket is the stable filter of the issues by exact match on
  \<open>severity\<close>, hence a subsequence of the issues in their original order; the
  concatenation of the four buckets is a permutation of the issues whose severity is one
  of the four values, each taken exactly once; and it is a permutation of all the issues
  when every issue has one of the four severities.
\<close>

theorem byCategory_partitions_known_severities:
  assumes "\<forall>i\<in>set xs. i \<noteq> JUndefined \<and> i \<noteq> JNull"
  shows "byCategory xs = Inr (stable_buckets xs)
       \<and> map fst (stable_buckets xs) = [''critical'', ''high'', ''medium'', ''low'']
       \<and> (\<forall>(sev, b)\<in>set (stable_buckets xs). b = filter (severity_is sev) xs \<and> subseq b xs)
       \<and> mset (concat (map snd (stable_buckets xs))) = mset (filter on_scale xs)
       \<and> ((\<forall>i\<in>set xs. on_scale i) \<longrightarrow> mset (concat (map snd (stable_buckets xs))) = mset xs)"
proof -
  from assms have "\<not> list_ex nullish xs" by (auto simp: list_ex_iff nullish_def)
  then have "byCategory xs = Inr (stable_buckets xs)" by (simp add: byCategory_eq)
  moreover have "map fst (stable_buckets xs) = [''critical'', ''high'', ''medium'', ''low'']"
    by (simp add: stable_buckets_def priority_def)
  moreover have "\<forall>(sev, b)\<in>set (stable_buckets xs). b = filter (severity_is sev) xs \<and> subseq b xs"
    by (auto simp: stable_buckets_def)
  moreover have "(\<forall>i\<in>set xs. on_scale i) \<longrightarrow> mset (concat (map snd (stable_buckets xs))) = mset xs"
    by (simp add: mset_stable_buckets filter_id_conv)
  ultimately show ?thesis using mset_stable_buckets[of xs] by blast
qed

theorem byCategory_partitions_known_severities_witness:
  "byCategory
     [JObj [(''severity'', JStr ''low''), (''file'', JStr ''a.ts'')],
      JObj [(''severity'', JStr ''critical''), (''file'', JStr ''auth.ts'')],
      JObj [(''severity'', JStr ''low''), (''file'', JStr ''b.ts'')]]
   = Inr [(''critical'', [JObj [(''severity'', JStr ''critical''), (''file'', JStr ''auth.ts'')]]),
          (''high'', []), (''medium'', []),
          (''low'', [JObj [(''severity'', JStr ''low''), (''file'', JStr ''a.ts'')],
                     JObj [(''severity'', JStr ''low''), (''file'', JStr ''b.ts'')]])]"
proof -
  let ?xs = "[JObj [(''severity'', JStr ''low''), (''file'', JStr ''a.ts'')],
      JObj [(''severity'', JStr ''critical''), (''file'', JStr ''auth.ts'')],
      JObj [(''severity'', JStr ''low''), (''file'', JStr ''b.ts'')]]"
  have h: "\<forall>i\<in>set ?xs. i \<noteq> JUndefined \<and> i \<noteq> JNull" by simp
  from byCategory_partitions_known_severities[OF h]
  have "byCategory ?xs = Inr (stable_buckets ?xs)" by blast
  then show ?thesis by (simp add: stable_buckets_def priority_def severity_is_def)
qed

text \<open>
  The claim as first stated fails: a payload whose only issue has the severity \<open>info\<close>
  passes the validator, and the four buckets built from it are all empty, so their
  concatenation is no permutation of the issues; and a payload whose \<open>issues\<close> holds
  \<open>null\<close> passes the validator while the partition throws.
\<close>

theorem byCategory_loses_unknown_severity:
  "isValidReviewResult
     (JObj [(''issues'', JArr [JObj [(''severity'', JStr ''info''), (''category'', JStr ''bug''),
                                     (''file'', JStr ''a.ts''), (''description'', JStr ''d'')]]),
            (''summary'', JStr ''s''), (''overallScore'', JNum (Finite 1))])
   \<and> narrow
     (JObj [(''issues'', JArr [JObj [(''severity'', JStr ''info''), (''category'', JStr ''bug''),
                                     (''file'', JStr ''a.ts''), (''description'', JStr ''d'')]]),
            (''summary'', JStr ''s''), (''overallScore'', JNum (Finite 1))])
     = Some \<lparr>issues = [JObj [(''severity'', JStr ''info''), (''category'', JStr ''bug''),
                                (''file'', JStr ''a.ts''), (''description'', JStr ''d'')]],
             summary = ''s'', overallScore = Finite 1\<rparr>
   \<and> byCategory [JObj [(''severity'', JStr ''info''), (''category'', JStr ''bug''),
                        (''file'', JStr ''a.ts''), (''description'', JStr ''d'')]]
     = Inr [(''critical'', []), (''high'', []), (''medium'', []), (''low'', [])]
   \<and> mset (concat (map snd [(''critical'', []), (''high'', []), (''medium'', []), (''low'', [])]))
     \<noteq> mset [JObj [(''severity'', JStr ''info''), (''category'', JStr ''bug''),
                     (''file'', JStr ''a.ts''), (''description'', JStr ''d'')]]
   \<and> isValidReviewResult
       (JObj [(''issues'', JArr [JNull]), (''summary'', JStr ''s''), (''overallScore'', JNum (Finite 1))])
   \<and> byCategory [JNull] = Inl TypeError"
  by (simp add: isValidReviewResult_def narrow_def byCategory_def get_prop_def)

lemma not_header_simps [simp]:
  "\<not> is_bucket_header (newline @ CHR ''['' # s)"
  "\<not> is_bucket_header (CHR '' '' # s)"
  "\<not> is_bucket_header rule30"
  by (simp_all add: is_bucket_header_def newline_def rule30_def numeral_2_eq_2)

lemma preamble_no_header [simp]:
  "\<not> is_bucket_header (newline @ rule50)"
  "\<not> is_bucket_header (glyph_chart @ s)"
  "\<not> is_bucket_header (rule50 @ s)"
  "\<not> is_bucket_header (CHR ''S'' # s)"
  "\<not> is_bucket_header (CHR ''I'' # s)"
  by (simp_all add: is_bucket_header_def newline_def rule50_def glyph_chart_def numeral_2_eq_2)

lemma is_bucket_header_bucket_header [simp]: "is_bucket_header (bucket_header sev n)"
  by (simp add: is_bucket_header_def bucket_header_def newline_def icon_def
      glyph_red_def glyph_orange_def glyph_yellow_def glyph_green_def)











text \<open>
  C8. For every validated ReviewResult, the first lines of the report are the banner and
  then the score line (the string conversion of \<open>overallScore\<close>, whatever its value,
  followed by \<open>/100\<close>), the line with the number of issues and the line with the summary;
  every line of a severity bucket comes after them. An integer score of magnitude below
  \<open>2^53\<close> prints as its decimal digits, below 0 and above 100 as well.
\<close>

theorem header_literal_score:
  "(\<exists>rest. fst (printResults ds r) =
       [newline @ rule50, glyph_chart @ '' REVIEW RESULTS'', rule50 @ newline,
        ''Score: '' @ number_to_string ds (overallScore r) @ ''/100'',
        ''Issues Found: '' @ digits10 (length (issues r)) @ newline,
        ''Summary: '' @ summary r @ newline] @ rest
     \<and> rest = fst (io_bind (lift (byCategory (issues r))) (for_each (print_bucket ds))))
   \<and> (\<bar>z\<bar> < 2 ^ 53 \<and> overallScore r = Finite (of_int z) \<longrightarrow>
        fst (printResults ds r) ! 3 = ''Score: '' @ int_to_string z @ ''/100'')"
  apply (simp add: printResults_def)
  apply (simp add: number_to_string_int)
  done

theorem header_literal_score_witness:
  "fst (printResults (\<lambda>q. []) \<lparr>issues = [], summary = ''ok'', overallScore = Finite 150\<rparr>) ! 3
     = ''Score: 150/100''
   \<and> fst (printResults (\<lambda>q. []) \<lparr>issues = [], summary = ''ok'', overallScore = Finite (- 5)\<rparr>) ! 3
     = ''Score: -5/100''"
proof -
  have a: "\<bar>150 :: int\<bar> < 2 ^ 53
      \<and> overallScore \<lparr>issues = [], summary = ''ok'', overallScore = Finite 150\<rparr> = Finite (of_int 150)"
    by simp
  have b: "\<bar>- 5 :: int\<bar> < 2 ^ 53
      \<and> overallScore \<lparr>issues = [], summary = ''ok'', overallScore = Finite (- 5)\<rparr> = Finite (of_int (- 5))"
    by simp
  have c: "int_to_string 150 = ''150''" "int_to_string (- 5) = ''-5''"
    by code_simp+
  from header_literal_score[THEN conjunct2, rule_format, OF a]
       header_literal_score[THEN conjunct2, rule_format, OF b] c
  show ?thesis by simp
qed






section \<open>Progress lines of tool invocations\<close>

lemma to_string_coalesce_error:
  assumes "to_string ds (coalesce (member_of (JObj inp) k) (JStr d)) = Inl e"
  shows "e = TypeError \<and> (\<exists>v. map_of inp k = Some v \<and> \<not> convertible v)"
proof -
  from assms obtain v where v: "map_of inp k = Some v" "to_string ds v = Inl e"
    by (cases "map_of inp k") (auto simp: coalesce_def split: if_splits)
  with to_string_Inl_iff[of ds v] to_string_error[of ds v e] show ?thesis by auto
qed

lemma getToolSummary_error:
  "getToolSummary ds b = Inl e \<Longrightarrow>
     e = TypeError \<and>
     (\<exists>k v. map_of (input b) k = Some v \<and> \<not> convertible v \<and>
        (name b = ''Read'' \<and> k = ''file_path'' \<or> name b = ''Glob'' \<and> k = ''pattern''
         \<or> name b = ''Grep'' \<and> (k = ''pattern'' \<or> k = ''path'')))"
  unfolding getToolSummary_def Let_def
  by (auto simp del: member_of.simps split: if_splits sum.splits dest!: to_string_coalesce_error)




lemma delegation_not_summary [simp]:
  "delegation_line s \<noteq> summary_line tool t" "summary_line tool t \<noteq> delegation_line s"
  by (simp_all add: delegation_line_def summary_line_def glyph_robot_def glyph_open_folder_def)

text \<open>
  C6, as amended. For every tool invocation named \<open>Task\<close>: when \<open>subagent_type\<close> is
  absent (or \<open>null\<close>) the interpreter logs exactly one line, the delegation line with the
  label \<open>unknown\<close>; when it holds a value that can be converted to a string, exactly one
  line, the delegation line naming that value (a string names itself); when it holds a
  value that cannot be converted to a string (an object with an own property
  \<open>toString\<close>, or an array that contains one) the interpreter throws a TypeError and logs
  no line. No \<open>Task\<close> invocation ever logs a tool summary line.
\<close>

theorem delegation_progress_line:
  assumes "name tb = ''Task''"
  shows "(map_of (input tb) ''subagent_type'' = Some (JStr s) \<longrightarrow>
            progress ds (ToolUse tb) = ([delegation_line s], Inr ()))
       \<and> (map_of (input tb) ''subagent_type'' = None \<longrightarrow>
            progress ds (ToolUse tb) = ([delegation_line ''unknown''], Inr ()))
       \<and> (map_of (input tb) ''subagent_type'' = Some v \<and> nullish v \<longrightarrow>
            progress ds (ToolUse tb) = ([delegation_line ''unknown''], Inr ()))
       \<and> (map_of (input tb) ''subagent_type'' = Some v \<and> \<not> nullish v \<and> convertible v \<longrightarrow>
            (\<exists>t. to_string ds v = Inr t \<and> progress ds (ToolUse tb) = ([delegation_line t], Inr ())))
       \<and> (map_of (input tb) ''subagent_type'' = Some v \<and> \<not> convertible v \<longrightarrow>
            progress ds (ToolUse tb) = ([], Inl TypeError))
       \<and> (\<forall>tool t. summary_line tool t \<notin> set (fst (progress ds (ToolUse tb))))"
proof (intro conjI impI allI)
  show "progress ds (ToolUse tb) = ([delegation_line s], Inr ())"
    if "map_of (input tb) ''subagent_type'' = Some (JStr s)"
    using that assms by (simp add: progress_def coalesce_def console_log_def)
  show "progress ds (ToolUse tb) = ([delegation_line ''unknown''], Inr ())"
    if "map_of (input tb) ''subagent_type'' = None"
    using that assms by (simp add: progress_def coalesce_def console_log_def)
  show "progress ds (ToolUse tb) = ([delegation_line ''unknown''], Inr ())"
    if "map_of (input tb) ''subagent_type'' = Some v \<and> nullish v"
    using that assms by (auto simp: progress_def coalesce_def console_log_def nullish_def)
  show "\<exists>t. to_string ds v = Inr t \<and> progress ds (ToolUse tb) = ([delegation_line t], Inr ())"
    if a: "map_of (input tb) ''subagent_type'' = Some v \<and> \<not> nullish v \<and> convertible v"
  proof -
    from a to_string_total_iff(1)[of ds v] obtain t where t: "to_string ds v = Inr t" by blast
    with a assms have "progress ds (ToolUse tb) = ([delegation_line t], Inr ())"
      by (simp add: progress_def coalesce_def console_log_def nullish_def)
    with t show ?thesis by blast
  qed
  show "progress ds (ToolUse tb) = ([], Inl TypeError)"
    if a: "map_of (input tb) ''subagent_type'' = Some v \<and> \<not> convertible v"
  proof -
    from a have nn: "v \<noteq> JUndefined \<and> v \<noteq> JNull" by auto
    from a to_string_Inl_iff[of ds v] obtain e where "to_string ds v = Inl e" by blast
    with to_string_error[of ds v e] have "to_string ds v = Inl TypeError" by simp
    with a nn assms show ?thesis
      by (simp add: progress_def coalesce_def)
  qed
  show "summary_line tool t \<notin> set (fst (progress ds (ToolUse tb)))" for tool t
    using assms
    by (cases "to_string ds (coalesce (member_of (JObj (input tb)) ''subagent_type'') (JStr ''unknown''))")
       (auto simp: progress_def console_log_def)
qed

theorem delegation_progress_line_witness:
  "progress (\<lambda>q. []) (ToolUse \<lparr>name = ''Task'', input = [(''subagent_type'', JStr ''security-scanner'')]\<rparr>)
     = ([delegation_line ''security-scanner''], Inr ())
   \<and> progress (\<lambda>q. []) (ToolUse \<lparr>name = ''Task'', input = []\<rparr>) = ([delegation_line ''unknown''], Inr ())
   \<and> progress (\<lambda>q. []) (ToolUse \<lparr>name = ''Task'', input = [(''subagent_type'', JNull)]\<rparr>)
       = ([delegation_line ''unknown''], Inr ())
   \<and> progress (\<lambda>q. []) (ToolUse \<lparr>name = ''Task'', input = [(''subagent_type'', JBool True)]\<rparr>)
       = ([delegation_line ''true''], Inr ())
   \<and> progress (\<lambda>q. []) (ToolUse \<lparr>name = ''Task'', input = [(''subagent_type'', JArr [JObj [(''toString'', JNull)]])]\<rparr>)
       = ([], Inl TypeError)"
proof -
  let ?ds = "\<lambda>q::rat. []::string"
  let ?a = "\<lparr>name = ''Task'', input = [(''subagent_type'', JStr ''security-scanner'')]\<rparr>"
  let ?b = "\<lparr>name = ''Task'', input = []\<rparr>"
  let ?c = "\<lparr>name = ''Task'', input = [(''subagent_type'', JNull)]\<rparr>"
  let ?d = "\<lparr>name = ''Task'', input = [(''subagent_type'', JBool True)]\<rparr>"
  let ?e = "\<lparr>name = ''Task'', input = [(''subagent_type'', JArr [JObj [(''toString'', JNull)]])]\<rparr>"
  have n: "name ?a = ''Task''" "name ?b = ''Task''" "name ?c = ''Task''" "name ?d = ''Task''"
    "name ?e = ''Task''"
    by simp_all
  have hc: "map_of (input ?c) ''subagent_type'' = Some JNull \<and> nullish JNull"
    by (simp add: nullish_def)
  have hd: "map_of (input ?d) ''subagent_type'' = Some (JBool True) \<and> \<not> nullish (JBool True)
      \<and> convertible (JBool True)"
    by (simp add: nullish_def)
  have he: "map_of (input ?e) ''subagent_type'' = Some (JArr [JObj [(''toString'', JNull)]])
      \<and> \<not> convertible (JArr [JObj [(''toString'', JNull)]])"
    by simp
  from delegation_progress_line[OF n(1), of "''security-scanner''" ?ds]
  have 1: "progress ?ds (ToolUse ?a) = ([delegation_line ''security-scanner''], Inr ())" by simp
  from delegation_progress_line[OF n(2), of "[]" ?ds]
  have 2: "progress ?ds (ToolUse ?b) = ([delegation_line ''unknown''], Inr ())" by simp
  from delegation_progress_line[OF n(3), of _ ?ds JNull] hc
  have 3: "progress ?ds (ToolUse ?c) = ([delegation_line ''unknown''], Inr ())" by blast
  from delegation_progress_line[OF n(4), of _ ?ds "JBool True"] hd
  obtain t where "to_string ?ds (JBool True) = Inr t"
    "progress ?ds (ToolUse ?d) = ([delegation_line t], Inr ())" by blast
  then have 4: "progress ?ds (ToolUse ?d) = ([delegation_line ''true''], Inr ())" by simp
  from delegation_progress_line[OF n(5), of _ ?ds "JArr [JObj [(''toString'', JNull)]]"] he
  have 5: "progress ?ds (ToolUse ?e) = ([], Inl TypeError)" by blast
  from 1 2 3 4 5 show ?thesis by blast
qed

text \<open>
  The claim as first stated fails: a \<open>Task\<close> invocation whose \<open>subagent_type\<close> is the
  object \<open>{"toString": 1}\<close> logs no delegation line; converting the value throws.
\<close>

theorem delegation_line_can_throw:
  "\<forall>ds. progress ds
     (ToolUse \<lparr>name = ''Task'', input = [(''subagent_type'', JObj [(''toString'', JNum (Finite 1))])]\<rparr>)
   = ([], Inl TypeError)"
  by (simp add: progress_def coalesce_def)

section \<open>The review loop\<close>

lemma snd_on_result:
  "snd (on_result ds st p c) =
     Inr (if st = ''success'' \<and> truthy p \<and> isValidReviewResult p then narrow p else None)"
  by (simp add: on_result_def)

lemma progress_error: "snd (progress ds b) = Inl e \<Longrightarrow> e = TypeError"
  using getToolSummary_error[of ds] to_string_error[of ds]
  by (auto simp: progress_def snd_io_bind split: content_block.splits if_splits sum.splits)

lemma for_each_progress:
  "snd (for_each (progress ds) content) =
     (if list_ex (\<lambda>b. snd (progress ds b) = Inl TypeError) content then Inl TypeError else Inr ())"
proof (induction content)
  case Nil
  then show ?case by simp
next
  case (Cons b content)
  then show ?case
    by (cases "snd (progress ds b)") (auto simp: snd_io_bind dest: progress_error)
qed

lemma snd_on_message:
  "snd (on_message ds m) =
     (if progress_throws ds m then Inl TypeError
      else Inr (case m of
                  ResultMessage st p c \<Rightarrow> if records m then narrow p else None
                | _ \<Rightarrow> None))"
  by (cases m)
     (auto simp: on_message_def progress_throws_def snd_io_bind for_each_progress snd_on_result)

lemma snd_consume:
  "snd (consume ds msgs slot) =
     (if list_ex (progress_throws ds) msgs then Inl TypeError
      else Inr (if assignments ds msgs = [] then slot else Some (last (assignments ds msgs))))"
proof (induction msgs arbitrary: slot)
  case Nil
  then show ?case by simp
next
  case (Cons m msgs)
  show ?case
    by (cases "snd (on_message ds m)")
       (use snd_on_message[of ds m] in \<open>auto simp: snd_io_bind Cons split: option.splits if_splits\<close>)
qed

lemma snd_runCodeReview:
  "snd (runCodeReview ds d s) =
     (case snd (consume ds (events s) None) of
        Inl e \<Rightarrow> Inl e
      | Inr res \<Rightarrow> (case failure s of Some e \<Rightarrow> Inl (SessionError e) | None \<Rightarrow> Inr res))"
  by (simp add: runCodeReview_def snd_io_bind split: sum.splits option.splits)

lemma assignments_length: "length (assignments ds msgs) \<le> length (filter is_result msgs)"
proof (induction msgs)
  case Nil
  then show ?case by simp
next
  case (Cons m msgs)
  then show ?case
    by (cases m) (auto simp: snd_on_message split: sum.splits option.splits if_splits)
qed

lemma assignments_none: "\<forall>m\<in>set msgs. \<not> is_result m \<Longrightarrow> assignments ds msgs = []"
  using assignments_length[of ds msgs] by simp

lemma assignments_no_records: "\<forall>m\<in>set msgs. \<not> records m \<Longrightarrow> assignments ds msgs = []"
proof (induction msgs)
  case Nil
  then show ?case by simp
next
  case (Cons m msgs)
  then show ?case
    by (cases m) (auto simp: snd_on_message split: sum.splits option.splits if_splits)
qed

lemma on_message_assigns:
  "snd (on_message ds m) = Inr (Some r) \<Longrightarrow>
   \<exists>p c. m = ResultMessage ''success'' p c \<and> truthy p \<and> isValidReviewResult p \<and> narrow p = Some r"
  by (cases m) (auto simp: snd_on_message split: if_splits)

lemma fst_consume_mono:
  "snd (consume ds msgs slot) = Inr res \<Longrightarrow> m \<in> set msgs \<Longrightarrow>
   set (fst (on_message ds m)) \<subseteq> set (fst (consume ds msgs slot))"
proof (induction msgs arbitrary: slot)
  case Nil
  then show ?case by simp
next
  case (Cons a msgs)
  then show ?case
    by (cases "snd (on_message ds a)") (auto simp: fst_io_bind snd_io_bind)
qed

lemma fst_runCodeReview_consume:
  "set (fst (consume ds (events s) None)) \<subseteq> set (fst (runCodeReview ds d s))"
  by (auto simp: runCodeReview_def fst_io_bind split: sum.splits option.splits)

text \<open>
  C4, as amended. Handling a terminal event never throws. A terminal event with a
  non-success status, or with success status and an absent (falsy) payload, logs the
  failure line citing its status; one with success status and a payload that fails
  validation logs the failure line citing the invalid response structure; neither
  assigns the result, and the line is among the lines the function has logged whenever
  the function does not end in a TypeError. When no terminal event of the stream
  records a result, the function returns null if it returns. An error leaves the loop
  only as the stream's own error (opening the session or reading the next message) or
  as the TypeError of a progress line whose tool input cannot be converted to a string;
  without either the function returns, and a failure of the stream does propagate.
\<close>

theorem terminal_failure_is_local:
  "(\<not> records (ResultMessage st p c) \<longrightarrow>
       on_message ds (ResultMessage st p c) =
         ([if st = ''success'' \<and> truthy p then invalid_line else failed_line st], Inr None))
 \<and> (\<forall>e. snd (on_message ds (ResultMessage st p c)) \<noteq> Inl e)
 \<and> ((\<forall>m\<in>set (events s). \<not> records m) \<and> snd (runCodeReview ds d s) = Inr res \<longrightarrow> res = None)
 \<and> (m \<in> set (events s) \<and> snd (runCodeReview ds d s) \<noteq> Inl TypeError \<longrightarrow>
       set (fst (on_message ds m)) \<subseteq> set (fst (runCodeReview ds d s)))
 \<and> (snd (runCodeReview ds d s) = Inl e \<longrightarrow>
       (\<exists>msg. failure s = Some msg \<and> e = SessionError msg)
       \<or> (e = TypeError \<and> list_ex (progress_throws ds) (events s)))
 \<and> (\<not> list_ex (progress_throws ds) (events s) \<and> failure s = None \<longrightarrow>
       (\<exists>res. snd (runCodeReview ds d s) = Inr res))
 \<and> (\<not> list_ex (progress_throws ds) (events s) \<and> failure s = Some msg \<longrightarrow>
       snd (runCodeReview ds d s) = Inl (SessionError msg))"
proof (intro conjI impI allI)
  show "on_message ds (ResultMessage st p c) =
         ([if st = ''success'' \<and> truthy p then invalid_line else failed_line st], Inr None)"
    if "\<not> records (ResultMessage st p c)"
    using that by (auto simp: on_message_def on_result_def io_bind_def console_log_def ret_def)
  show "snd (on_message ds (ResultMessage st p c)) \<noteq> Inl e" for e
    by (simp add: on_message_def snd_on_result)
  show "res = None" if "(\<forall>m\<in>set (events s). \<not> records m) \<and> snd (runCodeReview ds d s) = Inr res"
  proof -
    from that have "assignments ds (events s) = []"
      by (simp add: assignments_no_records)
    with that show ?thesis
      by (auto simp: snd_runCodeReview snd_consume split: if_splits option.splits)
  qed
  show "set (fst (on_message ds m)) \<subseteq> set (fst (runCodeReview ds d s))"
    if "m \<in> set (events s) \<and> snd (runCodeReview ds d s) \<noteq> Inl TypeError"
  proof -
    from that obtain r where "snd (consume ds (events s) None) = Inr r"
      by (cases "snd (consume ds (events s) None)")
        (auto simp: snd_runCodeReview snd_consume split: if_splits)
    from fst_consume_mono[OF this] that fst_runCodeReview_consume[of ds s d]
    show ?thesis by blast
  qed
  show "(\<exists>msg. failure s = Some msg \<and> e = SessionError msg)
       \<or> (e = TypeError \<and> list_ex (progress_throws ds) (events s))"
    if "snd (runCodeReview ds d s) = Inl e"
    using that by (auto simp: snd_runCodeReview snd_consume split: if_splits option.splits)
  show "\<exists>res. snd (runCodeReview ds d s) = Inr res"
    if "\<not> list_ex (progress_throws ds) (events s) \<and> failure s = None"
    using that by (simp add: snd_runCodeReview snd_consume)
  show "snd (runCodeReview ds d s) = Inl (SessionError msg)"
    if "\<not> list_ex (progress_throws ds) (events s) \<and> failure s = Some msg"
    using that by (simp add: snd_runCodeReview snd_consume)
qed

theorem terminal_failure_is_local_witness:
  "on_message (\<lambda>q. []) (ResultMessage ''error_max_turns'' JUndefined None)
     = ([failed_line ''error_max_turns''], Inr None)
   \<and> on_message (\<lambda>q. []) (ResultMessage ''success'' (JObj [(''issues'', JStr ''x'')]) None)
     = ([invalid_line], Inr None)
   \<and> snd (runCodeReview (\<lambda>q. []) ''.''
        \<lparr>events = [ResultMessage ''error_max_turns'' JUndefined None], failure = None\<rparr>) = Inr None
   \<and> failed_line ''error_max_turns'' \<in> set (fst (runCodeReview (\<lambda>q. []) ''.''
        \<lparr>events = [ResultMessage ''error_max_turns'' JUndefined None], failure = None\<rparr>))
   \<and> snd (runCodeReview (\<lambda>q. []) ''.''
        \<lparr>events = [ResultMessage ''error_max_turns'' JUndefined None], failure = Some ''connection lost''\<rparr>)
       = Inl (SessionError ''connection lost'')"
proof -
  let ?ds = "\<lambda>q::rat. []::string"
  let ?m = "ResultMessage ''error_max_turns'' JUndefined None"
  let ?s = "\<lparr>events = [?m], failure = None\<rparr>"
  have r1: "\<not> records ?m" by simp
  have r2: "\<not> records (ResultMessage ''success'' (JObj [(''issues'', JStr ''x'')]) None)"
    by (simp add: isValidReviewResult_def)
  have p: "\<not> list_ex (progress_throws ?ds) (events ?s) \<and> failure ?s = None"
    by (simp add: progress_throws_def)
  note t = terminal_failure_is_local[of "''error_max_turns''" JUndefined None ?ds ?s "''.''" _ ?m]
  from t p obtain res where res: "snd (runCodeReview ?ds ''.'' ?s) = Inr res" by blast
  have "(\<forall>m\<in>set (events ?s). \<not> records m)" by simp
  with t res have "res = None" by blast
  with res have 3: "snd (runCodeReview ?ds ''.'' ?s) = Inr None" by simp
  from t r1 have 1: "on_message ?ds ?m = ([failed_line ''error_max_turns''], Inr None)" by simp
  from terminal_failure_is_local[of "''success''" "JObj [(''issues'', JStr ''x'')]" None ?ds] r2
  have 2: "on_message ?ds (ResultMessage ''success'' (JObj [(''issues'', JStr ''x'')]) None)
     = ([invalid_line], Inr None)" by simp
  have "?m \<in> set (events ?s) \<and> snd (runCodeReview ?ds ''.'' ?s) \<noteq> Inl TypeError"
    using 3 by simp
  with t have "set (fst (on_message ?ds ?m)) \<subseteq> set (fst (runCodeReview ?ds ''.'' ?s))"
    by blast
  with 1 have 4: "failed_line ''error_max_turns'' \<in> set (fst (runCodeReview ?ds ''.'' ?s))" by simp
  let ?f = "\<lparr>events = [?m], failure = Some ''connection lost''\<rparr>"
  have "\<not> list_ex (progress_throws ?ds) (events ?f) \<and> failure ?f = Some ''connection lost''"
    by (simp add: progress_throws_def)
  with terminal_failure_is_local[of _ _ _ ?ds ?f "''.''" _ _ _ "''connection lost''"]
  have 5: "snd (runCodeReview ?ds ''.'' ?f) = Inl (SessionError ''connection lost'')" by blast
  from 1 2 3 4 5 show ?thesis by blast
qed

text \<open>
  The claim as first stated fails twice. An assistant message with a \<open>Read\<close> invocation
  whose \<open>file_path\<close> is the object \<open>{"toString": 1}\<close> makes the loop end in a TypeError,
  though the stream itself did not fail. And a stream with a valid successful terminal
  event followed by a terminal event of status \<open>error_max_turns\<close> makes the function
  return the recorded result, not null.
\<close>

theorem loop_propagates_other_errors:
  "(\<forall>ds. snd (runCodeReview ds ''.''
        \<lparr>events = [AssistantMessage
            [ToolUse \<lparr>name = ''Read'', input = [(''file_path'', JObj [(''toString'', JNum (Finite 1))])]\<rparr>]],
         failure = None\<rparr>) = Inl TypeError)
   \<and> (\<forall>ds. snd (runCodeReview ds ''.''
        \<lparr>events = [ResultMessage ''success''
                     (JObj [(''issues'', JArr []), (''summary'', JStr ''s''), (''overallScore'', JNum (Finite 1))])
                     None,
                   ResultMessage ''error_max_turns'' JUndefined None],
         failure = None\<rparr>) = Inr (Some \<lparr>issues = [], summary = ''s'', overallScore = Finite 1\<rparr>))"
  by (simp add: snd_runCodeReview snd_consume progress_throws_def snd_on_message progress_def
      getToolSummary_def coalesce_def isValidReviewResult_def narrow_def del: consume.simps)

lemma assignments_append:
  "\<not> list_ex (progress_throws ds) pre \<Longrightarrow>
   assignments ds (pre @ post) = assignments ds pre @ assignments ds post"
  by (induction pre) (auto simp: snd_on_message split: option.splits message.splits)

lemma last_assignment_kept:
  assumes "events s = pre @ m # post"
    and "snd (on_message ds m) = Inr (Some r)"
    and "\<forall>m'\<in>set post. \<not> is_result m'"
    and "snd (runCodeReview ds d s) = Inr res"
  shows "res = Some r"
proof -
  from assms(4) have nt: "\<not> list_ex (progress_throws ds) (events s)"
    by (auto simp: snd_runCodeReview snd_consume split: if_splits)
  with assms(1) have "\<not> list_ex (progress_throws ds) pre" by simp
  then have "assignments ds (events s) = assignments ds pre @ assignments ds (m # post)"
    unfolding assms(1) by (rule assignments_append)
  also have "assignments ds (m # post) = [r]"
    using assms(2) assignments_none[OF assms(3), of ds] by simp
  finally have "assignments ds (events s) = assignments ds pre @ [r]" .
  with assms(4) nt show ?thesis
    by (auto simp: snd_runCodeReview snd_consume split: if_splits option.splits)
qed

text \<open>
  C9, as amended. The variable \<open>result\<close> is assigned only by a terminal event with
  success status whose payload is present and passes validation, and it is assigned that
  payload. Over a stream with at most one terminal event, as a session's stream is, it is
  assigned at most once. Whenever the function returns, it returns the last value
  assigned (null when none was), so the value the terminal event assigned is kept through
  every later message that is not a terminal event. If the stream holds no terminal
  event, nothing is assigned; the function then returns null normally when the stream
  does not fail and no progress line throws, and ends in a TypeError when a progress line
  throws.
\<close>

theorem result_assigned_per_valid_terminal:
  "(snd (on_message ds m) = Inr (Some r) \<longrightarrow>
      (\<exists>p c. m = ResultMessage ''success'' p c \<and> truthy p \<and> isValidReviewResult p \<and> narrow p = Some r))
 \<and> (length (filter is_result (events s)) \<le> 1 \<longrightarrow> length (assignments ds (events s)) \<le> 1)
 \<and> (snd (runCodeReview ds d s) = Inr res \<longrightarrow>
      res = (if assignments ds (events s) = [] then None else Some (last (assignments ds (events s)))))
 \<and> (events s = pre @ m # post \<and> snd (on_message ds m) = Inr (Some r)
       \<and> (\<forall>m'\<in>set post. \<not> is_result m') \<and> snd (runCodeReview ds d s) = Inr res \<longrightarrow> res = Some r)
 \<and> ((\<forall>m\<in>set (events s). \<not> is_result m) \<longrightarrow> assignments ds (events s) = [])
 \<and> ((\<forall>m\<in>set (events s). \<not> is_result m) \<and> failure s = None
       \<and> \<not> list_ex (progress_throws ds) (events s) \<longrightarrow> snd (runCodeReview ds d s) = Inr None)
 \<and> ((\<forall>m\<in>set (events s). \<not> is_result m) \<and> list_ex (progress_throws ds) (events s) \<longrightarrow>
       snd (runCodeReview ds d s) = Inl TypeError)"
proof (intro conjI impI)
  show "\<exists>p c. m = ResultMessage ''success'' p c \<and> truthy p \<and> isValidReviewResult p \<and> narrow p = Some r"
    if "snd (on_message ds m) = Inr (Some r)"
    using that by (rule on_message_assigns)
  show "length (assignments ds (events s)) \<le> 1" if "length (filter is_result (events s)) \<le> 1"
    using that assignments_length[of ds "events s"] by linarith
  show "res = (if assignments ds (events s) = [] then None else Some (last (assignments ds (events s))))"
    if "snd (runCodeReview ds d s) = Inr res"
    using that by (auto simp: snd_runCodeReview snd_consume split: if_splits option.splits)
  show "res = Some r"
    if "events s = pre @ m # post \<and> snd (on_message ds m) = Inr (Some r)
       \<and> (\<forall>m'\<in>set post. \<not> is_result m') \<and> snd (runCodeReview ds d s) = Inr res"
    using that last_assignment_kept[of s pre m post ds r d res] by blast
  show "assignments ds (events s) = []" if "\<forall>m\<in>set (events s). \<not> is_result m"
    using that by (rule assignments_none)
  show "snd (runCodeReview ds d s) = Inr None"
    if "(\<forall>m\<in>set (events s). \<not> is_result m) \<and> failure s = None
       \<and> \<not> list_ex (progress_throws ds) (events s)"
    using that assignments_none[of "events s" ds] by (simp add: snd_runCodeReview snd_consume)
  show "snd (runCodeReview ds d s) = Inl TypeError"
    if "(\<forall>m\<in>set (events s). \<not> is_result m) \<and> list_ex (progress_throws ds) (events s)"
    using that by (simp add: snd_runCodeReview snd_consume)
qed

theorem result_assigned_per_valid_terminal_witness:
  "length (assignments (\<lambda>q. [])
       [OtherMessage, ResultMessage ''success''
          (JObj [(''issues'', JArr []), (''summary'', JStr ''s''), (''overallScore'', JNum (Finite 1))]) None]) \<le> 1
   \<and> snd (runCodeReview (\<lambda>q. []) ''.''
        \<lparr>events = [OtherMessage, ResultMessage ''success''
          (JObj [(''issues'', JArr []), (''summary'', JStr ''s''), (''overallScore'', JNum (Finite 1))]) None,
          AssistantMessage []],
         failure = None\<rparr>) = Inr (Some \<lparr>issues = [], summary = ''s'', overallScore = Finite 1\<rparr>)
   \<and> snd (runCodeReview (\<lambda>q. []) ''.'' \<lparr>events = [OtherMessage, AssistantMessage []], failure = None\<rparr>)
       = Inr None"
proof -
  let ?ds = "\<lambda>q::rat. []::string"
  let ?m = "ResultMessage ''success''
          (JObj [(''issues'', JArr []), (''summary'', JStr ''s''), (''overallScore'', JNum (Finite 1))]) None"
  let ?r = "\<lparr>issues = [], summary = ''s'', overallScore = Finite 1\<rparr>"
  let ?s = "\<lparr>events = [OtherMessage, ?m], failure = None\<rparr>"
  let ?u = "\<lparr>events = [OtherMessage, ?m, AssistantMessage []], failure = None\<rparr>"
  let ?t = "\<lparr>events = [OtherMessage, AssistantMessage []], failure = None\<rparr>"
  have a: "length (filter is_result (events ?s)) \<le> 1" by simp
  have b: "(\<forall>m\<in>set (events ?t). \<not> is_result m) \<and> failure ?t = None
       \<and> \<not> list_ex (progress_throws ?ds) (events ?t)"
    by (simp add: progress_throws_def)
  have m: "snd (on_message ?ds ?m) = Inr (Some ?r)"
    by (simp add: on_message_def on_result_def isValidReviewResult_def narrow_def)
  have "\<not> list_ex (progress_throws ?ds) (events ?u) \<and> failure ?u = None"
    by (simp add: progress_throws_def)
  then obtain res where res: "snd (runCodeReview ?ds ''.'' ?u) = Inr res"
    by (auto simp: snd_runCodeReview snd_consume simp del: consume.simps)
  have "events ?u = [OtherMessage] @ ?m # [AssistantMessage []] \<and> snd (on_message ?ds ?m) = Inr (Some ?r)
       \<and> (\<forall>m'\<in>set [AssistantMessage []]. \<not> is_result m') \<and> snd (runCodeReview ?ds ''.'' ?u) = Inr res"
    using m res by simp
  with result_assigned_per_valid_terminal[of ?ds ?m ?r ?u "''.''" res "[OtherMessage]" "[AssistantMessage []]"]
  have "res = Some ?r" by blast
  with res have 3: "snd (runCodeReview ?ds ''.'' ?u) = Inr (Some ?r)" by simp
  from result_assigned_per_valid_terminal[of ?ds _ _ ?s] a
  have 1: "length (assignments ?ds (events ?s)) \<le> 1" by blast
  from result_assigned_per_valid_terminal[of ?ds _ _ ?t "''.''"] b
  have 2: "snd (runCodeReview ?ds ''.'' ?t) = Inr None" by blast
  from 1 2 3 show ?thesis by simp
qed

text \<open>
  The claim as first stated fails in its last part: a stream without terminal event
  whose only message is an assistant message with a \<open>Glob\<close> invocation whose \<open>pattern\<close>
  is the object \<open>{"toString": 1}\<close> does not complete normally; the function ends in a
  TypeError.
\<close>

theorem no_terminal_stream_can_raise:
  "\<forall>ds. filter is_result
       [AssistantMessage
          [ToolUse \<lparr>name = ''Glob'', input = [(''pattern'', JObj [(''toString'', JNum (Finite 1))])]\<rparr>]]
     = []
   \<and> snd (runCodeReview ds ''.''
        \<lparr>events =
           [AssistantMessage
              [ToolUse \<lparr>name = ''Glob'', input = [(''pattern'', JObj [(''toString'', JNum (Finite 1))])]\<rparr>]],
         failure = None\<rparr>)
     = Inl TypeError"
  by (simp add: snd_runCodeReview snd_consume progress_throws_def progress_def
      getToolSummary_def coalesce_def del: consume.simps)

end
